theory Spec2Isabelle
  imports Complex_Main "HOL-Library.Word"
begin

section \<open>Values, exceptions and responses\<close>

text \<open>
  The request bodies of \<^verbatim>\<open>app.py\<close> are parsed JSON (\<^verbatim>\<open>request.json\<close>). A JSON value is
  a Python \<^verbatim>\<open>None\<close>, \<^verbatim>\<open>bool\<close>, number, \<^verbatim>\<open>str\<close>, \<^verbatim>\<open>list\<close> or \<^verbatim>\<open>dict\<close>; numbers are
  kept as integers here. An object is an association list read with \<open>map_of\<close>.
\<close>

datatype json =
    JNull
  | JBool bool
  | JNum int
  | JStr string
  | JArr "json list"
  | JObj "(string \<times> json) list"

text \<open>Python truthiness, as \<^verbatim>\<open>not url\<close>, \<^verbatim>\<open>not user_input\<close> and \<^verbatim>\<open>not api_key\<close> read it.\<close>

fun truthy :: "json \<Rightarrow> bool" where
  "truthy JNull = False"
| "truthy (JBool b) = b"
| "truthy (JNum n) = (n \<noteq> 0)"
| "truthy (JStr s) = (s \<noteq> [])"
| "truthy (JArr xs) = (xs \<noteq> [])"
| "truthy (JObj kvs) = (kvs \<noteq> [])"

fun type_name :: "json \<Rightarrow> string" where
  "type_name JNull = ''NoneType''"
| "type_name (JBool b) = ''bool''"
| "type_name (JNum n) = ''int''"
| "type_name (JStr s) = ''str''"
| "type_name (JArr xs) = ''list''"
| "type_name (JObj kvs) = ''dict''"

text \<open>
  Exceptions are values: the class, as far as the \<^verbatim>\<open>except\<close> clauses of \<^verbatim>\<open>chat\<close> tell
  classes apart, and the text \<^verbatim>\<open>str(e)\<close>.
\<close>

datatype exn_class =
    RequestException
  | TogetherAPIError
  | AttributeError
  | TypeError
  | IndexError
  | OtherException

datatype exn = Exn exn_class string

fun exn_class_of :: "exn \<Rightarrow> exn_class" where
  "exn_class_of (Exn c m) = c"

fun str :: "exn \<Rightarrow> string" where
  "str (Exn c m) = m"

definition quoted :: "string \<Rightarrow> string" where
  "quoted s = [CHR 0x27] @ s @ [CHR 0x27]"

text \<open>
  \<^verbatim>\<open>request.json.get(field)\<close>: the value of the field, \<^verbatim>\<open>None\<close> when the object has no
  such field, and an \<^verbatim>\<open>AttributeError\<close> when the body is not an object.
\<close>

definition json_get :: "json \<Rightarrow> string \<Rightarrow> exn + json" where
  "json_get b field =
     (case b of
        JObj kvs \<Rightarrow> Inr (case map_of kvs field of None \<Rightarrow> JNull | Some v \<Rightarrow> v)
      | _ \<Rightarrow> Inl (Exn AttributeError
                 (quoted (type_name b) @ '' object has no attribute '' @ quoted ''get'')))"

text \<open>The payloads of \<^verbatim>\<open>jsonify\<close>, by their keys, with the HTTP status beside them.\<close>

datatype payload =
    Error string
  | Message string
  | Processed string string string
  | Response string

datatype response =
    Json payload nat
  | TooManyRequests

fun status :: "response \<Rightarrow> nat" where
  "status (Json p code) = code"
| "status TooManyRequests = 429"

section \<open>The shared state\<close>

text \<open>
  \<^verbatim>\<open>extracted_texts\<close> is the module-level dict of line 46. The \<^verbatim>\<open>User\<close> table of lines
  49 to 53 is a map from the primary key; the column \<^verbatim>\<open>api_keys\<close> holds a JSON list of
  strings, kept here as the list \<^verbatim>\<open>json.loads\<close> reads from it.
\<close>

record user =
  email :: string
  password :: string
  api_keys :: "string list"

datatype limit = Limit (scope: string) (amount: nat) (seconds: nat)

type_synonym counters = "string \<times> limit \<Rightarrow> (nat \<times> nat) option"

record state =
  extracted_texts :: "string \<rightharpoonup> string"
  users :: "nat \<rightharpoonup> user"
  counters :: counters

record request =
  remote_addr :: string
  session_user :: "nat option"
  body :: json
  now :: nat

section \<open>Context keys\<close>

text \<open>
  \<^verbatim>\<open>uuid.uuid4().hex\<close> is \<^verbatim>\<open>'%032x' % self.int\<close>: the 128-bit integer of the UUID in 32
  lower-case hexadecimal digits. The integer drawn is an input of the model.
\<close>

definition hexdigit :: "nat \<Rightarrow> char" where
  "hexdigit d = ''0123456789abcdef'' ! d"

fun hex_digits :: "nat \<Rightarrow> nat \<Rightarrow> string" where
  "hex_digits 0 n = []"
| "hex_digits (Suc k) n = hex_digits k (n div 16) @ [hexdigit (n mod 16)]"

definition uuid_hex :: "128 word \<Rightarrow> string" where
  "uuid_hex u = hex_digits 32 (unat u)"

definition new_api_key :: "128 word \<Rightarrow> string" where
  "new_api_key u = ''user_'' @ uuid_hex u"

definition generate_integration_code :: "string \<Rightarrow> string" where
  "generate_integration_code api_key =
     [CHR 0x0A] @ ''<!-- AI Chatbot Integration -->'' @ [CHR 0x0A]
     @ ''<script src='' @ [CHR 0x22]
     @ ''https://chatcat-s1ny.onrender.com/chatbot.js?api_key='' @ api_key
     @ [CHR 0x22] @ ''></script>'' @ [CHR 0x0A]"

section \<open>Ingestion: \<^verbatim>\<open>process_url\<close>\<close>

text \<open>
  What the outside world answers during one call of \<^verbatim>\<open>process_url\<close>: the document
  fetcher \<^verbatim>\<open>extract_text_from_url\<close> (text or an exception), the UUID drawn, and whether
  the query of line 161 or the commit of line 165 raises.
\<close>

record ingest_env =
  extract_text_from_url :: "json \<Rightarrow> exn + string"
  uuid4 :: "128 word"
  query_fault :: "exn option"
  commit_fault :: "exn option"

text \<open>Line 158: the store's insertion, \<^verbatim>\<open>extracted_texts[api_key] = extracted_text\<close>.\<close>

definition store_put :: "state \<Rightarrow> string \<Rightarrow> string \<Rightarrow> state" where
  "store_put st api_key extracted_text =
     st\<lparr>extracted_texts := (extracted_texts st)(api_key \<mapsto> extracted_text)\<rparr>"

text \<open>
  Lines 161 to 165: the account's row is read, the key appended to its list and the row
  committed. A user id with no row makes \<^verbatim>\<open>user\<close> \<^verbatim>\<open>None\<close>, and \<^verbatim>\<open>user.api_keys\<close>
  raises. The table changes only when the commit goes through.
\<close>

definition registry_append ::
  "state \<Rightarrow> nat \<Rightarrow> string \<Rightarrow> exn option \<Rightarrow> exn option \<Rightarrow> exn + state" where
  "registry_append st uid api_key qf cf =
     (case qf of
        Some e \<Rightarrow> Inl e
      | None \<Rightarrow>
          (case users st uid of
             None \<Rightarrow> Inl (Exn AttributeError
                 (quoted ''NoneType'' @ '' object has no attribute '' @ quoted ''api_keys''))
           | Some u \<Rightarrow>
               (case cf of
                  Some e \<Rightarrow> Inl e
                | None \<Rightarrow>
                    Inr (st\<lparr>users := (users st)(uid \<mapsto> u\<lparr>api_keys := api_keys u @ [api_key]\<rparr>)\<rparr>))))"

text \<open>
  The handler, lines 147 to 176. \<open>Inl e\<close> in the result is an exception that leaves the
  handler: \<^verbatim>\<open>request.json.get('url')\<close> stands before the \<^verbatim>\<open>try\<close>.
\<close>

definition process_url :: "state \<Rightarrow> request \<Rightarrow> ingest_env \<Rightarrow> state \<times> (exn + response)" where
  "process_url st rq ev =
     (case session_user rq of
        None \<Rightarrow> (st, Inr (Json (Error ''User not logged in'') 401))
      | Some uid \<Rightarrow>
          (case json_get (body rq) ''url'' of
             Inl e \<Rightarrow> (st, Inl e)
           | Inr url \<Rightarrow>
               if \<not> truthy url then (st, Inr (Json (Error ''No URL provided'') 400))
               else
                 (case extract_text_from_url ev url of
                    Inl e \<Rightarrow> (st, Inr (Json (Error (str e)) 500))
                  | Inr extracted_text \<Rightarrow>
                      let api_key = new_api_key (uuid4 ev);
                          st1 = store_put st api_key extracted_text
                      in (case registry_append st1 uid api_key (query_fault ev) (commit_fault ev) of
                            Inl e \<Rightarrow> (st1, Inr (Json (Error (str e)) 500))
                          | Inr st2 \<Rightarrow>
                              (st2, Inr (Json (Processed ''Processing complete'' api_key
                                                 (generate_integration_code api_key)) 200))))))"

section \<open>Chat: \<^verbatim>\<open>chat\<close>\<close>

record message =
  role :: string
  content :: json

record completion_request =
  model :: string
  messages :: "message list"
  max_tokens :: nat
  temperature :: rat
  top_p :: rat
  top_k :: nat
  repetition_penalty :: nat
  stop :: "string list"

definition no_context :: string where
  "no_context = ''No context available for this API key.''"

text \<open>
  Line 188, \<^verbatim>\<open>extracted_texts.get(api_key, "No context ...")\<close>: a list or a dict is not
  hashable and raises; any other value that is not a string equals no key of the store.
\<close>

definition lookup_context :: "state \<Rightarrow> json \<Rightarrow> exn + string" where
  "lookup_context st api_key =
     (case api_key of
        JStr k \<Rightarrow> Inr (case extracted_texts st k of None \<Rightarrow> no_context | Some t \<Rightarrow> t)
      | JArr xs \<Rightarrow> Inl (Exn TypeError (''unhashable type: '' @ quoted ''list''))
      | JObj kvs \<Rightarrow> Inl (Exn TypeError (''unhashable type: '' @ quoted ''dict''))
      | _ \<Rightarrow> Inr no_context)"

definition system_intro :: string where
  "system_intro =
     ''You are a helpful AI assistant trained on the following website content: ''"

definition response_policy :: string where
  "response_policy =
     [CHR 0x0A, CHR 0x0A] @ ''Instructions for providing responses:'' @ [CHR 0x0A]
     @ ''1. Start with a brief, direct answer to the user'' @ [CHR 0x27] @ ''s question.''
     @ [CHR 0x0A]
     @ ''2. If applicable, provide 2-3 key points or examples to support your answer.''
     @ [CHR 0x0A]
     @ ''3. Use bullet points or numbered lists for clarity when appropriate.''
     @ [CHR 0x0A]
     @ ''4. If the question is unclear, politely ask for clarification.''
     @ [CHR 0x0A]
     @ ''5. Keep your total response under 150 words unless more detail is explicitly requested.''
     @ [CHR 0x0A]
     @ ''6. End with a follow-up question or suggestion if relevant.''"

definition system_content :: "string \<Rightarrow> string" where
  "system_content ctx = system_intro @ ctx @ response_policy"

text \<open>Lines 191 to 216: the two messages and the arguments of the completion call.\<close>

definition build_messages :: "string \<Rightarrow> json \<Rightarrow> message list" where
  "build_messages ctx user_input =
     [\<lparr>role = ''system'', content = JStr (system_content ctx)\<rparr>,
      \<lparr>role = ''user'', content = user_input\<rparr>]"

definition completion_call :: "string \<Rightarrow> json \<Rightarrow> completion_request" where
  "completion_call ctx user_input =
     \<lparr>model = ''meta-llama/Meta-Llama-3.1-405B-Instruct-Turbo'',
      messages = build_messages ctx user_input,
      max_tokens = 512,
      temperature = 7 / 10,
      top_p = 7 / 10,
      top_k = 50,
      repetition_penalty = 1,
      stop = [''<|eot_id|>'', ''<|eom_id|>'']\<rparr>"

text \<open>
  The \<^verbatim>\<open>except\<close> clauses of lines 220 to 228 are tried in their order. The first catches
  a \<^verbatim>\<open>RequestException\<close> and answers with status 503. For an exception of any other
  class the second clause is tried next, and to try it Python evaluates
  \<^verbatim>\<open>Together.APIError\<close>: the client class imported at line 6 has no such attribute, so
  an \<^verbatim>\<open>AttributeError\<close> is raised inside the handler of exceptions and leaves \<^verbatim>\<open>chat\<close>.
  The bodies of lines 224 to 228 are never reached.
\<close>

definition no_APIError :: exn where
  "no_APIError =
     Exn AttributeError
       (''type object '' @ quoted ''Together'' @ '' has no attribute '' @ quoted ''APIError'')"

definition chat_except :: "exn \<Rightarrow> exn + response" where
  "chat_except e =
     (case exn_class_of e of
        RequestException \<Rightarrow> Inr (Json (Error (''Network error: '' @ str e)) 503)
      | _ \<Rightarrow> Inl no_APIError)"

text \<open>
  Lines 182 to 188: what \<^verbatim>\<open>chat\<close> does before it calls the completion service. The
  result is the outcome of an early return or of an exception raised so far, or the call
  it is about to make.
\<close>

definition chat_prepare :: "state \<Rightarrow> request \<Rightarrow> (exn + response) + completion_request" where
  "chat_prepare st rq =
     (case json_get (body rq) ''input'' of
        Inl e \<Rightarrow> Inl (chat_except e)
      | Inr user_input \<Rightarrow>
          (case json_get (body rq) ''api_key'' of
             Inl e \<Rightarrow> Inl (chat_except e)
           | Inr api_key \<Rightarrow>
               if \<not> truthy user_input \<or> \<not> truthy api_key
               then Inl (Inr (Json (Error ''Input and API key are required'') 400))
               else
                 (case lookup_context st api_key of
                    Inl e \<Rightarrow> Inl (chat_except e)
                  | Inr ctx \<Rightarrow> Inr (completion_call ctx user_input))))"

text \<open>
  Line 219: the completion service answers with the texts of its choices, or raises;
  \<^verbatim>\<open>response.choices[0]\<close> raises on an empty list.
\<close>

definition chat_finish :: "exn + string list \<Rightarrow> exn + response" where
  "chat_finish answer =
     (case answer of
        Inl e \<Rightarrow> chat_except e
      | Inr [] \<Rightarrow> chat_except (Exn IndexError ''list index out of range'')
      | Inr (c # cs) \<Rightarrow> Inr (Json (Response c) 200))"

text \<open>
  The handler, lines 180 to 228. The completion service \<open>create\<close> is an input: a function
  from the call to its answer. The state is returned as it was received; \<open>Inl e\<close> in the
  result is an exception that leaves the handler.
\<close>

definition chat ::
  "state \<Rightarrow> request \<Rightarrow> (completion_request \<Rightarrow> exn + string list) \<Rightarrow> state \<times> (exn + response)" where
  "chat st rq create =
     (case chat_prepare st rq of
        Inl outcome \<Rightarrow> (st, outcome)
      | Inr call \<Rightarrow> (st, chat_finish (create call)))"

section \<open>Deletion: \<^verbatim>\<open>delete_api_key\<close>\<close>

text \<open>
  \<^verbatim>\<open>api_key in api_keys\<close> compares with \<^verbatim>\<open>==\<close>: only a string equals an element of the
  list. \<^verbatim>\<open>api_keys.remove\<close> takes the first occurrence out.
\<close>

definition key_in :: "json \<Rightarrow> string list \<Rightarrow> string option" where
  "key_in api_key ks = (case api_key of JStr k \<Rightarrow> if k \<in> set ks then Some k else None | _ \<Rightarrow> None)"

text \<open>
  The handler, lines 319 to 340; it has no \<^verbatim>\<open>try\<close>, so every exception leaves it. The
  store's entry goes with \<^verbatim>\<open>extracted_texts.pop(api_key, None)\<close>, after the commit. The
  arguments \<open>qf\<close> and \<open>cf\<close> say whether the query of line 327 or the commit of line 333
  raises, and with what.
\<close>

definition delete_api_key ::
  "state \<Rightarrow> request \<Rightarrow> exn option \<Rightarrow> exn option \<Rightarrow> state \<times> (exn + response)" where
  "delete_api_key st rq qf cf =
     (case session_user rq of
        None \<Rightarrow> (st, Inr (Json (Error ''User not logged in'') 401))
      | Some uid \<Rightarrow>
          (case json_get (body rq) ''api_key'' of
             Inl e \<Rightarrow> (st, Inl e)
           | Inr api_key \<Rightarrow>
               if \<not> truthy api_key then (st, Inr (Json (Error ''No API key provided'') 400))
               else
                 (case qf of
                    Some e \<Rightarrow> (st, Inl e)
                  | None \<Rightarrow>
                      (case users st uid of
                         None \<Rightarrow> (st, Inl (Exn AttributeError
                             (quoted ''NoneType'' @ '' object has no attribute '' @ quoted ''api_keys'')))
                       | Some u \<Rightarrow>
                           (case key_in api_key (api_keys u) of
                              Some k \<Rightarrow>
                                (case cf of
                                   Some e \<Rightarrow> (st, Inl e)
                                 | None \<Rightarrow>
                                     (st\<lparr>users := (users st)(uid \<mapsto> u\<lparr>api_keys := remove1 k (api_keys u)\<rparr>),
                                         extracted_texts := (extracted_texts st)(k := None)\<rparr>,
                                      Inr (Json (Message ''API key deleted successfully'') 200)))
                            | None \<Rightarrow> (st, Inr (Json (Error ''API key not found'') 404)))))))"

section \<open>The rate limiter\<close>

text \<open>
  Modelled from the spec: the admission logic of the Rate Limiter. The source only
  constructs it (lines 27 to 31) and decorates the two routes with
  \<^verbatim>\<open>@limiter.limit("5 per minute")\<close> (lines 146 and 179); the code that counts is the
  package \<^verbatim>\<open>flask_limiter\<close>, which is not among the source files. By the spec, a window
  is a counter per client identity with a ceiling and a time span; the counter starts
  again when the span has elapsed since the window's first recorded request; a request
  is admitted only if every window that applies to the operation is under its ceiling,
  and admission updates all of them at once. A denial is a value, not an exception.
  Time is the arrival time of the request in seconds.
\<close>

definition current :: "counters \<Rightarrow> string \<Rightarrow> nat \<Rightarrow> limit \<Rightarrow> (nat \<times> nat) option" where
  "current c ident t l =
     (case c (ident, l) of
        None \<Rightarrow> None
      | Some (first, n) \<Rightarrow> if first + seconds l \<le> t then None else Some (first, n))"

definition used :: "counters \<Rightarrow> string \<Rightarrow> nat \<Rightarrow> limit \<Rightarrow> nat" where
  "used c ident t l = (case current c ident t l of None \<Rightarrow> 0 | Some (first, n) \<Rightarrow> n)"

definition hit :: "counters \<Rightarrow> string \<Rightarrow> nat \<Rightarrow> limit \<Rightarrow> nat \<times> nat" where
  "hit c ident t l = (case current c ident t l of None \<Rightarrow> (t, 1) | Some (first, n) \<Rightarrow> (first, n + 1))"

definition Admit :: "limit list \<Rightarrow> string \<Rightarrow> nat \<Rightarrow> counters \<Rightarrow> counters option" where
  "Admit ls ident t c =
     (if list_all (\<lambda>l. used c ident t l < amount l) ls
      then Some (\<lambda>(i, l). if i = ident \<and> l \<in> set ls then Some (hit c ident t l) else c (i, l))
      else None)"

text \<open>A run of requests of one identity, each admitted in its turn.\<close>

fun admit_all :: "limit list \<Rightarrow> string \<Rightarrow> nat list \<Rightarrow> counters \<Rightarrow> counters option" where
  "admit_all ls ident [] c = Some c"
| "admit_all ls ident (t # ts) c =
     (case Admit ls ident t c of None \<Rightarrow> None | Some c' \<Rightarrow> admit_all ls ident ts c')"

text \<open>
  The limits the source writes down: the defaults of line 30 and the limit of the two
  decorators, counted per route.
\<close>

definition default_limits :: "limit list" where
  "default_limits = [Limit ''global'' 200 86400, Limit ''global'' 100 3600]"

definition per_minute :: "string \<Rightarrow> limit" where
  "per_minute route = Limit route 5 60"

text \<open>
  A decorated route: the limiter, keyed by \<^verbatim>\<open>get_remote_address\<close>, is asked first, and
  the handler runs only when the request is admitted. The route's own per-minute window
  always applies; \<open>others\<close> are the further windows the limiter applies to the route
  (the daily and hourly ceilings, or none where the route's own limit replaces them).
\<close>

definition limited ::
  "limit list \<Rightarrow> state \<Rightarrow> request \<Rightarrow> (state \<Rightarrow> state \<times> (exn + response))
     \<Rightarrow> state \<times> (exn + response)" where
  "limited ls st rq handler =
     (case Admit ls (remote_addr rq) (now rq) (counters st) of
        None \<Rightarrow> (st, Inr TooManyRequests)
      | Some c' \<Rightarrow> handler (st\<lparr>counters := c'\<rparr>))"

definition route_process_url ::
  "limit list \<Rightarrow> state \<Rightarrow> request \<Rightarrow> ingest_env \<Rightarrow> state \<times> (exn + response)" where
  "route_process_url others st rq ev =
     limited (per_minute ''process_url'' # others) st rq (\<lambda>s. process_url s rq ev)"

definition route_chat ::
  "limit list \<Rightarrow> state \<Rightarrow> request \<Rightarrow> (completion_request \<Rightarrow> exn + string list)
     \<Rightarrow> state \<times> (exn + response)" where
  "route_chat others st rq create =
     limited (per_minute ''chat'' # others) st rq (\<lambda>s. chat s rq create)"

section \<open>Concrete inputs\<close>

text \<open>
  A small world to run the handlers in: one registered account with the primary key 1,
  an empty store, a limiter that has seen nothing, a client at one address, and a
  version-4 UUID (version nibble 4, variant bits 10).
\<close>

definition alice :: user where
  "alice = \<lparr>email = ''alice@example.org'', password = ''pbkdf2:sha256'', api_keys = []\<rparr>"

definition fresh_state :: state where
  "fresh_state = \<lparr>extracted_texts = Map.empty, users = [1 \<mapsto> alice], counters = (\<lambda>k. None)\<rparr>"

definition post :: "nat option \<Rightarrow> json \<Rightarrow> nat \<Rightarrow> request" where
  "post who b t = \<lparr>remote_addr = ''203.0.113.7'', session_user = who, body = b, now = t\<rparr>"

definition url_body :: json where
  "url_body = JObj [(''url'', JStr ''https://example.org/'')]"

definition chat_body :: "string \<Rightarrow> string \<Rightarrow> json" where
  "chat_body user_input api_key = JObj [(''input'', JStr user_input), (''api_key'', JStr api_key)]"

definition key_body :: "string \<Rightarrow> json" where
  "key_body api_key = JObj [(''api_key'', JStr api_key)]"

definition world :: "string \<Rightarrow> 128 word \<Rightarrow> ingest_env" where
  "world page u =
     \<lparr>extract_text_from_url = (\<lambda>url. Inr page), uuid4 = u, query_fault = None, commit_fault = None\<rparr>"

definition uuid_a :: "128 word" where
  "uuid_a = 0x40008000000000000000"

definition key_a :: string where
  "key_a = ''user_00000000000040008000000000000000''"

text \<open>A completion service that answers with the system message it was sent.\<close>

definition echo :: "completion_request \<Rightarrow> exn + string list" where
  "echo call =
     (case messages call of
        m # ms \<Rightarrow> (case content m of JStr s \<Rightarrow> Inr [s] | _ \<Rightarrow> Inr [])
      | [] \<Rightarrow> Inr [])"

section \<open>Context keys are injective in the UUID\<close>

lemma hexdigit_inj: "d < 16 \<Longrightarrow> e < 16 \<Longrightarrow> hexdigit d = hexdigit e \<Longrightarrow> d = e"
proof -
  assume d: "d < 16" and e: "e < 16" and eq: "hexdigit d = hexdigit e"
  have dist: "distinct ''0123456789abcdef''" by simp
  have len: "length ''0123456789abcdef'' = 16" by simp
  from eq have "''0123456789abcdef'' ! d = ''0123456789abcdef'' ! e"
    by (simp only: hexdigit_def)
  with dist d e len show "d = e"
    by (simp only: nth_eq_iff_index_eq)
qed

lemma hex_digits_inj:
  "n < 16 ^ k \<Longrightarrow> m < 16 ^ k \<Longrightarrow> hex_digits k n = hex_digits k m \<Longrightarrow> n = m"
proof (induction k arbitrary: n m)
  case 0
  then show ?case by simp
next
  case (Suc k)
  from Suc.prems(3) have a: "hex_digits k (n div 16) = hex_digits k (m div 16)"
    and b: "hexdigit (n mod 16) = hexdigit (m mod 16)" by simp_all
  from Suc.prems(1) have "n div 16 < 16 ^ k"
    by (simp add: less_mult_imp_div_less mult.commute)
  moreover from Suc.prems(2) have "m div 16 < 16 ^ k"
    by (simp add: less_mult_imp_div_less mult.commute)
  ultimately have q: "n div 16 = m div 16" using a Suc.IH by blast
  have r: "n mod 16 = m mod 16" using b by (intro hexdigit_inj) simp_all
  have "n = 16 * (n div 16) + n mod 16" by simp
  also have "\<dots> = 16 * (m div 16) + m mod 16" using q r by simp
  also have "\<dots> = m" by simp
  finally show ?case .
qed

lemma uuid_hex_inj: "uuid_hex u = uuid_hex v \<Longrightarrow> u = v"
proof -
  assume eq: "uuid_hex u = uuid_hex v"
  have "unat u < 2 ^ 128" using unsigned_less [of u] by simp
  then have u: "unat u < 16 ^ 32" by simp
  have "unat v < 2 ^ 128" using unsigned_less [of v] by simp
  then have v: "unat v < 16 ^ 32" by simp
  from eq have "hex_digits 32 (unat u) = hex_digits 32 (unat v)"
    by (simp only: uuid_hex_def)
  with u v have "unat u = unat v" by (rule hex_digits_inj)
  then show "u = v" by (simp add: word_unat_eq_iff)
qed

lemma new_api_key_inj: "(new_api_key u = new_api_key v) = (u = v)"
  by (auto simp: new_api_key_def dest: uuid_hex_inj)

lemma hex_digits_numeral:
  "hex_digits (numeral k) n = hex_digits (pred_numeral k) (n div 16) @ [hexdigit (n mod 16)]"
  by (simp only: numeral_eq_Suc [of k] hex_digits.simps)

lemma key_a_eq: "new_api_key uuid_a = key_a"
  by (simp add: new_api_key_def uuid_hex_def uuid_a_def key_a_def hex_digits_numeral hexdigit_def)

section \<open>Ingestion issues a key and stores the text under it\<close>

lemma processed_key:
  "process_url st rq ev = (st', Inr (Json (Processed m k c) code)) \<Longrightarrow> k = new_api_key (uuid4 ev)"
  by (auto simp: process_url_def Let_def split: option.splits sum.splits if_splits)

lemma processed_stored:
  assumes "process_url st rq ev = (st', Inr (Json (Processed m k c) code))"
  shows "\<exists>url page. json_get (body rq) ''url'' = Inr url \<and> extract_text_from_url ev url = Inr page
           \<and> extracted_texts st' k = Some page"
  using assms
  by (auto simp: process_url_def Let_def store_put_def registry_append_def
           split: option.splits sum.splits if_splits)

lemma lookup_context_stored:
  "extracted_texts st k = Some page \<Longrightarrow> lookup_context st (JStr k) = Inr page"
  by (simp add: lookup_context_def)

lemmas run_defs =
  process_url_def Let_def store_put_def registry_append_def lookup_context_def json_get_def
  fresh_state_def post_def url_body_def world_def alice_def key_a_eq

text \<open>
  Claim C1. A successful ingestion returns the key \<^verbatim>\<open>user_\<close> followed by the 32
  hexadecimal digits of the UUID it drew; the store of the resulting state maps that key
  to exactly the text the fetcher returned, and the lookup of line 188 reads that text
  back. The key is an injective image of the draw: any other successful ingestion, in
  any state and at any time, returns the same key exactly when \<^verbatim>\<open>uuid4\<close> returned the
  same 128-bit value. The keys issued are therefore pairwise distinct as far as the
  values drawn are, which is the collision resistance the spec asks of the token.
\<close>

theorem ingestion_key_readable_and_fresh:
  assumes "process_url st rq ev = (st', Inr (Json (Processed m k c) code))"
  shows "k = new_api_key (uuid4 ev)
       \<and> (\<exists>url page. json_get (body rq) ''url'' = Inr url \<and> extract_text_from_url ev url = Inr page
             \<and> extracted_texts st' k = Some page \<and> lookup_context st' (JStr k) = Inr page)
       \<and> (\<forall>st2 rq2 ev2 st2' m2 k2 c2 code2.
             process_url st2 rq2 ev2 = (st2', Inr (Json (Processed m2 k2 c2) code2))
               \<and> uuid4 ev2 \<noteq> uuid4 ev \<longrightarrow> k2 \<noteq> k)
       \<and> (\<forall>st2 rq2 ev2 st2' m2 k2 c2 code2.
             process_url st2 rq2 ev2 = (st2', Inr (Json (Processed m2 k2 c2) code2))
               \<and> k2 = k \<longrightarrow> uuid4 ev2 = uuid4 ev)"
proof (intro conjI allI impI)
  show k: "k = new_api_key (uuid4 ev)" using assms by (rule processed_key)
  from processed_stored [OF assms] obtain url page where
    "json_get (body rq) ''url'' = Inr url" "extract_text_from_url ev url = Inr page"
    "extracted_texts st' k = Some page" by blast
  then show "\<exists>url page. json_get (body rq) ''url'' = Inr url \<and> extract_text_from_url ev url = Inr page
             \<and> extracted_texts st' k = Some page \<and> lookup_context st' (JStr k) = Inr page"
    using lookup_context_stored by blast
  {
    fix st2 rq2 ev2 st2' m2 k2 c2 code2
    assume h: "process_url st2 rq2 ev2 = (st2', Inr (Json (Processed m2 k2 c2) code2))
               \<and> uuid4 ev2 \<noteq> uuid4 ev"
    then have "k2 = new_api_key (uuid4 ev2)" using processed_key by blast
    with h k show "k2 \<noteq> k" by (simp add: new_api_key_inj)
  }
  {
    fix st2 rq2 ev2 st2' m2 k2 c2 code2
    assume h: "process_url st2 rq2 ev2 = (st2', Inr (Json (Processed m2 k2 c2) code2))
               \<and> k2 = k"
    then have "k2 = new_api_key (uuid4 ev2)" using processed_key by blast
    with h k show "uuid4 ev2 = uuid4 ev" by (simp add: new_api_key_inj)
  }
qed

text \<open>The account of \<open>fresh_state\<close> ingests one page and reads it back under the key.\<close>

theorem ingestion_key_witness:
  "lookup_context (fst (process_url fresh_state (post (Some 1) url_body 0) (world ''Hello'' uuid_a)))
     (JStr key_a) = Inr ''Hello''"
proof -
  have run: "process_url fresh_state (post (Some 1) url_body 0) (world ''Hello'' uuid_a)
      = (fst (process_url fresh_state (post (Some 1) url_body 0) (world ''Hello'' uuid_a)),
         Inr (Json (Processed ''Processing complete'' key_a (generate_integration_code key_a)) 200))"
    by (simp add: run_defs)
  from ingestion_key_readable_and_fresh [OF run] obtain url page where
    a: "extract_text_from_url (world ''Hello'' uuid_a) url = Inr page"
    and b: "lookup_context (fst (process_url fresh_state (post (Some 1) url_body 0) (world ''Hello'' uuid_a)))
     (JStr key_a) = Inr page" by blast
  from a have "page = ''Hello''" by (simp add: world_def)
  with b show ?thesis by simp
qed

section \<open>Chat: context resolution, dispatch and outcomes\<close>

lemma chat_prepare_valid:
  assumes "json_get (body rq) ''input'' = Inr user_input" and "truthy user_input"
      and "json_get (body rq) ''api_key'' = Inr api_key" and "truthy api_key"
      and "lookup_context st api_key = Inr ctx"
  shows "chat_prepare st rq = Inr (completion_call ctx user_input)"
  using assms by (simp add: chat_prepare_def)

lemma lookup_context_absent:
  "extracted_texts st k = None \<Longrightarrow> lookup_context st (JStr k) = Inr no_context"
  by (simp add: lookup_context_def)

lemma lookup_context_cases:
  "lookup_context st api_key = Inr ctx \<Longrightarrow>
     (\<forall>k. api_key = JStr k \<longrightarrow> ctx = (case extracted_texts st k of None \<Rightarrow> no_context | Some t \<Rightarrow> t))
     \<and> ((\<forall>k. api_key \<noteq> JStr k) \<longrightarrow> ctx = no_context)"
  by (auto simp: lookup_context_def split: json.splits)

lemma chat_after_prepare:
  "chat_prepare st rq = Inr call \<Longrightarrow> chat st rq create = (st, chat_finish (create call))"
  by (simp add: chat_def)

lemma chat_except_answers:
  "chat_except e = Inr r \<Longrightarrow>
     exn_class_of e = RequestException \<and> r = Json (Error (''Network error: '' @ str e)) 503"
  by (simp add: chat_except_def split: exn_class.splits)

lemma chat_except_escapes:
  "chat_except e = Inl x \<Longrightarrow> exn_class_of e \<noteq> RequestException \<and> x = no_APIError"
  by (simp add: chat_except_def split: exn_class.splits)

lemma chat_finish_answers:
  "chat_finish a = Inr r \<Longrightarrow> status r = 503 \<or> status r = 200"
  by (auto simp: chat_finish_def dest: chat_except_answers split: sum.splits list.splits)

lemma chat_finish_escapes:
  "chat_finish a = Inl x \<Longrightarrow>
     x = no_APIError \<and> ((\<exists>e. a = Inl e \<and> exn_class_of e \<noteq> RequestException) \<or> a = Inr [])"
  by (auto simp: chat_finish_def dest: chat_except_escapes split: sum.splits list.splits)

text \<open>
  What \<^verbatim>\<open>chat\<close> answers, case by case: status 400 for an input or a key that is missing
  or empty, status 503 for a completion call that raises a \<^verbatim>\<open>RequestException\<close>, the
  response payload for a call that is answered; every other exception leaves the
  handler as the \<^verbatim>\<open>AttributeError\<close> of line 223.
\<close>

lemma chat_outcomes:
  "(json_get (body rq) ''input'' = Inr user_input \<and> json_get (body rq) ''api_key'' = Inr api_key
      \<and> (\<not> truthy user_input \<or> \<not> truthy api_key)
      \<longrightarrow> chat st rq create = (st, Inr (Json (Error ''Input and API key are required'') 400)))
 \<and> (chat_prepare st rq = Inr call \<and> create call = Inl e \<and> exn_class_of e = RequestException
      \<longrightarrow> chat st rq create = (st, Inr (Json (Error (''Network error: '' @ str e)) 503)))
 \<and> (chat_prepare st rq = Inr call \<and> create call = Inr (c # cs)
      \<longrightarrow> chat st rq create = (st, Inr (Json (Response c) 200)))
 \<and> (chat_prepare st rq = Inr call \<and> create call = Inl e \<and> exn_class_of e \<noteq> RequestException
      \<longrightarrow> chat st rq create = (st, Inl no_APIError))
 \<and> (chat_prepare st rq = Inr call \<and> create call = Inr []
      \<longrightarrow> chat st rq create = (st, Inl no_APIError))
 \<and> (json_get (body rq) ''input'' = Inl e \<longrightarrow> chat st rq create = (st, Inl no_APIError))
 \<and> (json_get (body rq) ''input'' = Inr user_input \<and> json_get (body rq) ''api_key'' = Inr api_key
        \<and> truthy user_input \<and> truthy api_key \<and> lookup_context st api_key = Inl e
      \<longrightarrow> chat st rq create = (st, Inl no_APIError))"
  by (auto simp: chat_def chat_prepare_def chat_finish_def chat_except_def json_get_def
                 lookup_context_def
           split: json.splits exn_class.splits)

text \<open>
  Claim C2. A chat request carries a non-empty input and a non-empty string as its key,
  and the store has no entry for the key (never issued, or deleted). Then the call sent
  to the completion service is built from the placeholder \<open>no_context\<close>, and the handler's
  outcome is what it makes of the service's answer to that call: the service's text with
  status 200 whenever the service answers. No response has status 404, and an exception
  leaves the handler only when the completion call itself raised or returned no choice:
  the absent key is the cause of no failure.
\<close>

theorem chat_absent_key_uses_placeholder:
  assumes "json_get (body rq) ''input'' = Inr user_input" and "truthy user_input"
      and "json_get (body rq) ''api_key'' = Inr (JStr k)" and "k \<noteq> []"
      and "extracted_texts st k = None"
  shows "chat_prepare st rq = Inr (completion_call no_context user_input)
       \<and> chat st rq create = (st, chat_finish (create (completion_call no_context user_input)))
       \<and> (\<forall>c cs. create (completion_call no_context user_input) = Inr (c # cs)
             \<longrightarrow> chat st rq create = (st, Inr (Json (Response c) 200)))
       \<and> (\<forall>r. snd (chat st rq create) = Inr r \<longrightarrow> status r \<noteq> 404)
       \<and> (\<forall>x. snd (chat st rq create) = Inl x
             \<longrightarrow> x = no_APIError
                 \<and> ((\<exists>e. create (completion_call no_context user_input) = Inl e
                          \<and> exn_class_of e \<noteq> RequestException)
                      \<or> create (completion_call no_context user_input) = Inr []))"
proof -
  let ?a = "create (completion_call no_context user_input)"
  have p: "chat_prepare st rq = Inr (completion_call no_context user_input)"
    using assms by (simp add: chat_prepare_valid lookup_context_absent)
  then have c: "chat st rq create = (st, chat_finish ?a)"
    by (rule chat_after_prepare)
  have ok: "\<forall>c cs. ?a = Inr (c # cs) \<longrightarrow> chat st rq create = (st, Inr (Json (Response c) 200))"
    using c by (simp add: chat_finish_def)
  have nf: "\<forall>r. snd (chat st rq create) = Inr r \<longrightarrow> status r \<noteq> 404"
    using c chat_finish_answers [of ?a] by auto
  have esc: "\<forall>x. snd (chat st rq create) = Inl x
             \<longrightarrow> x = no_APIError
                 \<and> ((\<exists>e. ?a = Inl e \<and> exn_class_of e \<noteq> RequestException) \<or> ?a = Inr [])"
    using c chat_finish_escapes [of ?a] by auto
  from p c ok nf esc show ?thesis by blast
qed

text \<open>An unregistered key, with a service that echoes the system message it received.\<close>

theorem chat_absent_key_witness:
  "chat fresh_state (post None (chat_body ''hi'' ''user_bogus'') 0) echo
     = (fresh_state, Inr (Json (Response (system_content no_context)) 200))"
proof -
  have "chat fresh_state (post None (chat_body ''hi'' ''user_bogus'') 0) echo
     = (fresh_state, chat_finish (echo (completion_call no_context (JStr ''hi''))))"
    using chat_absent_key_uses_placeholder
      [of "post None (chat_body ''hi'' ''user_bogus'') 0" "JStr ''hi''" "''user_bogus''" fresh_state echo]
    by (simp add: json_get_def post_def chat_body_def fresh_state_def)
  then show ?thesis
    by (simp add: chat_finish_def echo_def completion_call_def build_messages_def)
qed

text \<open>
  Claim C6 says that every failure other than a missing field or a network error is
  answered with an error payload and status 500. The handler answers none of them. A key
  that is a JSON list is not hashable, and line 188 raises a \<^verbatim>\<open>TypeError\<close>; a completion
  call may raise an error of the service. In both runs the \<^verbatim>\<open>except\<close> clause of line 223
  raises the \<^verbatim>\<open>AttributeError\<close> and the exception leaves the handler: no payload, no
  status 500 of the handler's own.
\<close>

theorem chat_other_failure_escapes:
  "chat fresh_state (post None (JObj [(''input'', JStr ''hi''), (''api_key'', JArr [JStr ''x''])]) 0) echo
     = (fresh_state, Inl no_APIError)
 \<and> chat fresh_state (post None (chat_body ''hi'' ''user_bogus'') 0)
        (\<lambda>call. Inl (Exn TogetherAPIError ''Rate limit exceeded''))
     = (fresh_state, Inl no_APIError)"
  by (simp add: chat_def chat_prepare_def chat_finish_def chat_except_def lookup_context_def
                json_get_def post_def chat_body_def fresh_state_def)

text \<open>
  Claim C7. For a chat request with a non-empty input and a non-empty key whose lookup
  does not raise, the resolved context is the stored text, or the placeholder when the
  store has none; the call has exactly two messages, the system message made of the fixed
  introduction, the context and the fixed response policy, then the user's input; model,
  output length (512), temperature and top-p (0.7), top-k (50), repetition penalty and
  the two stop sequences are constants that no field of the request reaches; and the
  text of the service's first choice is returned as it is.
\<close>

theorem chat_dispatch_shape:
  assumes "json_get (body rq) ''input'' = Inr user_input" and "truthy user_input"
      and "json_get (body rq) ''api_key'' = Inr api_key" and "truthy api_key"
      and "lookup_context st api_key = Inr ctx"
  shows "(\<forall>k. api_key = JStr k
            \<longrightarrow> ctx = (case extracted_texts st k of None \<Rightarrow> no_context | Some t \<Rightarrow> t))
       \<and> ((\<forall>k. api_key \<noteq> JStr k) \<longrightarrow> ctx = no_context)
       \<and> (\<exists>call. chat_prepare st rq = Inr call
            \<and> messages call =
                [\<lparr>role = ''system'', content = JStr (system_intro @ ctx @ response_policy)\<rparr>,
                 \<lparr>role = ''user'', content = user_input\<rparr>]
            \<and> length (messages call) = 2
            \<and> model call = ''meta-llama/Meta-Llama-3.1-405B-Instruct-Turbo''
            \<and> max_tokens call = 512 \<and> temperature call = 7 / 10 \<and> top_p call = 7 / 10
            \<and> top_k call = 50 \<and> repetition_penalty call = 1
            \<and> stop call = [''<|eot_id|>'', ''<|eom_id|>'']
            \<and> (\<forall>create. chat st rq create = (st, chat_finish (create call)))
            \<and> (\<forall>create c cs. create call = Inr (c # cs)
                  \<longrightarrow> chat st rq create = (st, Inr (Json (Response c) 200))))"
proof -
  let ?call = "completion_call ctx user_input"
  have p: "chat_prepare st rq = Inr ?call" using assms by (rule chat_prepare_valid)
  have m: "messages ?call =
                [\<lparr>role = ''system'', content = JStr (system_intro @ ctx @ response_policy)\<rparr>,
                 \<lparr>role = ''user'', content = user_input\<rparr>]"
    by (simp add: completion_call_def build_messages_def system_content_def)
  have q: "model ?call = ''meta-llama/Meta-Llama-3.1-405B-Instruct-Turbo''
       \<and> max_tokens ?call = 512 \<and> temperature ?call = 7 / 10 \<and> top_p ?call = 7 / 10
       \<and> top_k ?call = 50 \<and> repetition_penalty ?call = 1
       \<and> stop ?call = [''<|eot_id|>'', ''<|eom_id|>'']"
    by (simp add: completion_call_def)
  have f: "\<forall>create. chat st rq create = (st, chat_finish (create ?call))"
    using p by (simp add: chat_def)
  then have g: "\<forall>create c cs. create ?call = Inr (c # cs)
             \<longrightarrow> chat st rq create = (st, Inr (Json (Response c) 200))"
    by (simp add: chat_finish_def)
  have l: "length (messages ?call) = 2" using m by simp
  have e: "\<exists>call. chat_prepare st rq = Inr call
            \<and> messages call =
                [\<lparr>role = ''system'', content = JStr (system_intro @ ctx @ response_policy)\<rparr>,
                 \<lparr>role = ''user'', content = user_input\<rparr>]
            \<and> length (messages call) = 2
            \<and> model call = ''meta-llama/Meta-Llama-3.1-405B-Instruct-Turbo''
            \<and> max_tokens call = 512 \<and> temperature call = 7 / 10 \<and> top_p call = 7 / 10
            \<and> top_k call = 50 \<and> repetition_penalty call = 1
            \<and> stop call = [''<|eot_id|>'', ''<|eom_id|>'']
            \<and> (\<forall>create. chat st rq create = (st, chat_finish (create call)))
            \<and> (\<forall>create c cs. create call = Inr (c # cs)
                  \<longrightarrow> chat st rq create = (st, Inr (Json (Response c) 200)))"
    apply (rule exI [of _ ?call])
    using p m q f g l by blast
  from lookup_context_cases [OF assms(5)] e show ?thesis by blast
qed

text \<open>The stored page appears in the system message the service receives and echoes.\<close>

theorem chat_dispatch_witness:
  "chat (store_put fresh_state key_a ''Hello'') (post None (chat_body ''What is this page about?'' key_a) 0) echo
     = (store_put fresh_state key_a ''Hello'',
        Inr (Json (Response (system_intro @ ''Hello'' @ response_policy)) 200))"
proof -
  let ?st = "store_put fresh_state key_a ''Hello''"
  let ?rq = "post None (chat_body ''What is this page about?'' key_a) 0"
  have a: "json_get (body ?rq) ''input'' = Inr (JStr ''What is this page about?'')"
    by (simp add: json_get_def post_def chat_body_def)
  have b: "truthy (JStr ''What is this page about?'')" by simp
  have c: "json_get (body ?rq) ''api_key'' = Inr (JStr key_a)"
    by (simp add: json_get_def post_def chat_body_def)
  have d: "truthy (JStr key_a)" by (simp add: key_a_def)
  have e: "lookup_context ?st (JStr key_a) = Inr ''Hello''"
    by (simp add: lookup_context_def store_put_def)
  from chat_dispatch_shape [OF a b c d e] obtain call where
    m: "messages call =
          [\<lparr>role = ''system'', content = JStr (system_intro @ ''Hello'' @ response_policy)\<rparr>,
           \<lparr>role = ''user'', content = JStr ''What is this page about?''\<rparr>]"
    and f: "\<forall>create. chat ?st ?rq create = (?st, chat_finish (create call))"
    by blast
  from m have "echo call = Inr [system_intro @ ''Hello'' @ response_policy]"
    by (simp add: echo_def)
  with f show ?thesis by (simp add: chat_finish_def)
qed

text \<open>
  Claim C9. Two chat requests whose bodies give the same input and the same key, against
  stores with the same contents, lead to the same call (or the same early outcome) and,
  for the same completion service, to the same outcome: neither the session nor the
  account table is read.
\<close>

theorem chat_ignores_session_and_accounts:
  assumes "json_get (body rq1) ''input'' = json_get (body rq2) ''input''"
      and "json_get (body rq1) ''api_key'' = json_get (body rq2) ''api_key''"
      and "extracted_texts st1 = extracted_texts st2"
  shows "chat_prepare st1 rq1 = chat_prepare st2 rq2
       \<and> snd (chat st1 rq1 create) = snd (chat st2 rq2 create)"
proof -
  have l: "\<And>k. lookup_context st1 k = lookup_context st2 k"
    using assms(3) by (simp add: lookup_context_def split: json.splits)
  have "chat_prepare st1 rq1 = chat_prepare st2 rq2"
    using assms(1,2) l by (simp add: chat_prepare_def split: sum.splits)
  then show ?thesis by (simp add: chat_def split: sum.splits)
qed

text \<open>An anonymous request and one of a session whose account does not exist.\<close>

theorem chat_ignores_session_witness:
  "snd (chat (store_put fresh_state key_a ''Hello'') (post None (chat_body ''hi'' key_a) 0) echo)
     = snd (chat (store_put (fresh_state\<lparr>users := Map.empty\<rparr>) key_a ''Hello'')
              (post (Some 7) (JObj [(''api_key'', JStr key_a), (''input'', JStr ''hi'')]) 99) echo)"
proof -
  let ?r1 = "post None (chat_body ''hi'' key_a) 0"
  let ?r2 = "post (Some 7) (JObj [(''api_key'', JStr key_a), (''input'', JStr ''hi'')]) 99"
  have a: "json_get (body ?r1) ''input'' = json_get (body ?r2) ''input''"
    by (simp add: json_get_def post_def chat_body_def)
  have b: "json_get (body ?r1) ''api_key'' = json_get (body ?r2) ''api_key''"
    by (simp add: json_get_def post_def chat_body_def)
  have c: "extracted_texts (store_put fresh_state key_a ''Hello'')
         = extracted_texts (store_put (fresh_state\<lparr>users := Map.empty\<rparr>) key_a ''Hello'')"
    by (simp add: store_put_def)
  from chat_ignores_session_and_accounts [OF a b c] show ?thesis by blast
qed

lemma limited_frame:
  assumes "\<And>s. extracted_texts (fst (handler s)) = extracted_texts s \<and> users (fst (handler s)) = users s"
  shows "extracted_texts (fst (limited ls st rq handler)) = extracted_texts st
       \<and> users (fst (limited ls st rq handler)) = users st"
  using assms by (simp add: limited_def split: option.splits)

text \<open>
  Claim C10. The handler \<^verbatim>\<open>chat\<close> returns the state it received, on every path; behind
  the limiter, the route changes neither the store nor any account's key list (only the
  limiter's counters move).
\<close>

theorem chat_leaves_store_and_registry:
  "fst (chat st rq create) = st
 \<and> extracted_texts (fst (route_chat others st rq create)) = extracted_texts st
 \<and> users (fst (route_chat others st rq create)) = users st"
proof -
  have a: "\<And>s. fst (chat s rq create) = s" by (simp add: chat_def split: sum.splits)
  then have "\<And>s. extracted_texts (fst (chat s rq create)) = extracted_texts s
               \<and> users (fst (chat s rq create)) = users s" by simp
  then have "extracted_texts (fst (limited (per_minute ''chat'' # others) st rq (\<lambda>s. chat s rq create)))
                 = extracted_texts st
       \<and> users (fst (limited (per_minute ''chat'' # others) st rq (\<lambda>s. chat s rq create))) = users st"
    by (rule limited_frame)
  with a show ?thesis by (simp add: route_chat_def)
qed

text \<open>After a chat through the route, the stored page and the account are as before.\<close>

theorem chat_leaves_store_witness:
  "extracted_texts (fst (route_chat default_limits (store_put fresh_state key_a ''Hello'')
                           (post None (chat_body ''hi'' key_a) 0) echo)) key_a = Some ''Hello''
 \<and> users (fst (route_chat default_limits (store_put fresh_state key_a ''Hello'')
                           (post None (chat_body ''hi'' key_a) 0) echo)) 1 = Some alice"
  using chat_leaves_store_and_registry
    [of "store_put fresh_state key_a ''Hello''" "post None (chat_body ''hi'' key_a) 0" echo default_limits]
  by (simp add: store_put_def fresh_state_def)

section \<open>The rate limiter: five per minute\<close>

lemma Admit_window:
  "Admit ls ident t c = Some c' \<Longrightarrow> w \<in> set ls \<Longrightarrow> c' (ident, w) = Some (hit c ident t w)"
  by (auto simp: Admit_def split: if_splits)

lemma hit_live:
  "c (ident, w) = Some (s, n) \<Longrightarrow> t < s + seconds w \<Longrightarrow> hit c ident t w = (s, n + 1)"
  by (simp add: hit_def current_def)

lemma hit_start:
  "hit c ident t w = (s, n) \<Longrightarrow> 0 < n"
  by (auto simp: hit_def split: option.splits)

lemma admit_all_count:
  "w \<in> set ls \<Longrightarrow> c (ident, w) = Some (s, n) \<Longrightarrow> \<forall>t\<in>set ts. t < s + seconds w
     \<Longrightarrow> admit_all ls ident ts c = Some c' \<Longrightarrow> c' (ident, w) = Some (s, n + length ts)"
proof (induction ts arbitrary: c n)
  case Nil
  then show ?case by simp
next
  case (Cons t ts)
  from Cons.prems(4) obtain c1 where a: "Admit ls ident t c = Some c1"
    and r: "admit_all ls ident ts c1 = Some c'"
    by (auto split: option.splits)
  from Cons.prems(3) have t: "t < s + seconds w" by simp
  have "hit c ident t w = (s, n + 1)" using Cons.prems(2) t by (rule hit_live)
  with Admit_window [OF a Cons.prems(1)]
  have "c1 (ident, w) = Some (s, n + 1)" by simp
  moreover from Cons.prems(3) have "\<forall>t\<in>set ts. t < s + seconds w" by simp
  ultimately have "c' (ident, w) = Some (s, n + 1 + length ts)"
    using Cons.IH Cons.prems(1) r by blast
  then show ?case by simp
qed

lemma Admit_denied:
  assumes "w \<in> set ls" and "c (ident, w) = Some (s, n)" and "t < s + seconds w"
      and "amount w \<le> n"
  shows "Admit ls ident t c = None"
proof -
  have "used c ident t w = n" using assms(2,3) by (simp add: used_def current_def)
  with assms(4) have "\<not> used c ident t w < amount w" by simp
  with assms(1) have "\<not> list_all (\<lambda>l. used c ident t l < amount l) ls"
    by (auto simp: list_all_iff)
  then show ?thesis by (simp add: Admit_def)
qed

lemma used_elapsed:
  "c (ident, w) = Some (s, n) \<Longrightarrow> s + seconds w \<le> t \<Longrightarrow> used c ident t w = 0"
  by (simp add: used_def current_def)

lemma sixth_denied:
  assumes "admit_all (per_minute route # others) ident (t1 # ts) c = Some c'"
      and "length ts = 4"
      and "\<forall>t\<in>set ts. t < fst (hit c ident t1 (per_minute route)) + 60"
      and "t6 < fst (hit c ident t1 (per_minute route)) + 60"
  shows "Admit (per_minute route # others) ident t6 c' = None"
proof -
  let ?w = "per_minute route"
  let ?ls = "?w # others"
  obtain s n where h: "hit c ident t1 ?w = (s, n)" by (cases "hit c ident t1 ?w")
  from assms(1) obtain c1 where a: "Admit ?ls ident t1 c = Some c1"
    and r: "admit_all ?ls ident ts c1 = Some c'"
    by (auto split: option.splits)
  have w: "?w \<in> set ?ls" by simp
  have sp: "seconds ?w = 60" and am: "amount ?w = 5" by (simp_all add: per_minute_def)
  from Admit_window [OF a w] h have c1: "c1 (ident, ?w) = Some (s, n)" by simp
  from assms(3) h sp have "\<forall>t\<in>set ts. t < s + seconds ?w" by simp
  with w c1 have "c' (ident, ?w) = Some (s, n + length ts)" using r by (rule admit_all_count)
  with assms(2) have c': "c' (ident, ?w) = Some (s, n + 4)" by simp
  from hit_start [OF h] am have n: "amount ?w \<le> n + 4" by simp
  from assms(4) h sp have t: "t6 < s + seconds ?w" by simp
  from w c' t n show ?thesis by (rule Admit_denied)
qed

lemma process_url_counters: "counters (fst (process_url s rq ev)) = counters s"
  by (auto simp: process_url_def Let_def store_put_def registry_append_def
           split: option.splits sum.splits if_splits)

lemma chat_counters: "counters (fst (chat s rq create)) = counters s"
  by (simp add: chat_def split: sum.splits)

lemma admitted_after_window:
  assumes "c (ident, per_minute route) = Some (s, n)" and "s + 60 \<le> t"
      and "list_all (\<lambda>l. used c ident t l < amount l) others"
  shows "\<exists>c'. Admit (per_minute route # others) ident t c = Some c'
           \<and> c' (ident, per_minute route) = Some (t, 1)"
proof -
  have "used c ident t (per_minute route) = 0"
    using assms(1,2) by (intro used_elapsed) (simp_all add: per_minute_def)
  then have "list_all (\<lambda>l. used c ident t l < amount l) (per_minute route # others)"
    using assms(3) by (simp add: per_minute_def)
  then obtain c' where a: "Admit (per_minute route # others) ident t c = Some c'"
    by (simp add: Admit_def)
  have "hit c ident t (per_minute route) = (t, 1)"
    using assms(1,2) by (simp add: hit_def current_def per_minute_def)
  with Admit_window [OF a, of "per_minute route"] a show ?thesis by simp
qed

lemma limited_denied:
  "Admit ls (remote_addr rq) (now rq) (counters st) = None
     \<Longrightarrow> limited ls st rq handler = (st, Inr TooManyRequests)"
  by (simp add: limited_def)

lemma limited_admitted:
  "Admit ls (remote_addr rq) (now rq) (counters st) = Some c1
     \<Longrightarrow> limited ls st rq handler = handler (st\<lparr>counters := c1\<rparr>)"
  by (simp add: limited_def)

text \<open>
  Claim C3, for the per-minute window \<open>per_minute route\<close> (ceiling 5, span 60 seconds)
  of a route and any further windows \<open>others\<close>. The window in effect for a first request
  at \<open>t_first\<close> starts at \<open>fst (hit c ident t_first (per_minute route))\<close>: the start of the
  live window, or \<open>t_first\<close> when none is live. When that request and four more of the
  same identity are admitted and a sixth arrives before the window has run its 60
  seconds, the sixth is denied. A denied request of either route is answered by the
  limiter and the state comes back unchanged, so no key is put into the store and none
  is appended to a key list; an admitted one runs the handler on the updated counters.
  Once 60 seconds have passed since the window's start, the per-minute window denies
  nothing: the request is admitted when the other windows are under their ceilings, and
  always when the per-minute window is the only one.
\<close>

theorem rate_limit_five_per_minute:
  "(admit_all (per_minute route # others) ident (t_first # ts) c = Some c' \<and> length ts = 4
      \<and> (\<forall>t\<in>set ts. t < fst (hit c ident t_first (per_minute route)) + 60)
      \<and> t_sixth < fst (hit c ident t_first (per_minute route)) + 60
      \<longrightarrow> Admit (per_minute route # others) ident t_sixth c' = None)
 \<and> (Admit (per_minute ''process_url'' # others) (remote_addr rq) (now rq) (counters st) = None
      \<longrightarrow> route_process_url others st rq ev = (st, Inr TooManyRequests))
 \<and> (Admit (per_minute ''chat'' # others) (remote_addr rq) (now rq) (counters st) = None
      \<longrightarrow> route_chat others st rq create = (st, Inr TooManyRequests))
 \<and> (Admit (per_minute ''process_url'' # others) (remote_addr rq) (now rq) (counters st) = Some c_new
      \<longrightarrow> route_process_url others st rq ev = process_url (st\<lparr>counters := c_new\<rparr>) rq ev
        \<and> counters (fst (route_process_url others st rq ev)) = c_new)
 \<and> (Admit (per_minute ''chat'' # others) (remote_addr rq) (now rq) (counters st) = Some c_new
      \<longrightarrow> route_chat others st rq create = chat (st\<lparr>counters := c_new\<rparr>) rq create
        \<and> counters (fst (route_chat others st rq create)) = c_new)
 \<and> (c (ident, per_minute route) = Some (s, n) \<and> s + 60 \<le> t
        \<and> list_all (\<lambda>l. used c ident t l < amount l) others
      \<longrightarrow> (\<exists>c_next. Admit (per_minute route # others) ident t c = Some c_next
             \<and> c_next (ident, per_minute route) = Some (t, 1)))
 \<and> (c (ident, per_minute route) = Some (s, n) \<and> s + 60 \<le> t
      \<longrightarrow> Admit [per_minute route] ident t c \<noteq> None)"
proof (intro conjI impI)
  assume "admit_all (per_minute route # others) ident (t_first # ts) c = Some c' \<and> length ts = 4
      \<and> (\<forall>t\<in>set ts. t < fst (hit c ident t_first (per_minute route)) + 60)
      \<and> t_sixth < fst (hit c ident t_first (per_minute route)) + 60"
  then show "Admit (per_minute route # others) ident t_sixth c' = None"
    using sixth_denied by blast
next
  assume "Admit (per_minute ''process_url'' # others) (remote_addr rq) (now rq) (counters st) = None"
  then show "route_process_url others st rq ev = (st, Inr TooManyRequests)"
    by (simp add: route_process_url_def limited_denied)
next
  assume "Admit (per_minute ''chat'' # others) (remote_addr rq) (now rq) (counters st) = None"
  then show "route_chat others st rq create = (st, Inr TooManyRequests)"
    by (simp add: route_chat_def limited_denied)
next
  assume a: "Admit (per_minute ''process_url'' # others) (remote_addr rq) (now rq) (counters st) = Some c_new"
  then show r: "route_process_url others st rq ev = process_url (st\<lparr>counters := c_new\<rparr>) rq ev"
    by (simp add: route_process_url_def limited_admitted)
  show "counters (fst (route_process_url others st rq ev)) = c_new"
    by (simp add: r process_url_counters)
next
  assume a: "Admit (per_minute ''chat'' # others) (remote_addr rq) (now rq) (counters st) = Some c_new"
  then show r: "route_chat others st rq create = chat (st\<lparr>counters := c_new\<rparr>) rq create"
    by (simp add: route_chat_def limited_admitted)
  show "counters (fst (route_chat others st rq create)) = c_new"
    by (simp add: r chat_counters)
next
  assume "c (ident, per_minute route) = Some (s, n) \<and> s + 60 \<le> t
        \<and> list_all (\<lambda>l. used c ident t l < amount l) others"
  then show "\<exists>c_next. Admit (per_minute route # others) ident t c = Some c_next
             \<and> c_next (ident, per_minute route) = Some (t, 1)"
    using admitted_after_window by blast
next
  assume "c (ident, per_minute route) = Some (s, n) \<and> s + 60 \<le> t"
  then have "\<exists>c_next. Admit (per_minute route # []) ident t c = Some c_next
             \<and> c_next (ident, per_minute route) = Some (t, 1)"
    by (intro admitted_after_window [of c ident route s n t "[]"]) simp_all
  then show "Admit [per_minute route] ident t c \<noteq> None" by auto
qed

lemmas limiter_defs =
  Admit_def used_def hit_def current_def per_minute_def default_limits_def

lemma five_admitted:
  "admit_all (per_minute ''process_url'' # default_limits) ''203.0.113.7'' [0, 10, 20, 30, 40]
     (\<lambda>k. None) \<noteq> None"
  by (simp add: limiter_defs)

text \<open>
  One address, with the daily and hourly ceilings as further windows: requests at seconds
  0, 10, 20, 30 and 40 are admitted, an ingestion at second 59 is turned away with the
  state unchanged, and a request at second 60 is admitted again.
\<close>

theorem rate_limit_witness:
  "\<exists>c5. admit_all (per_minute ''process_url'' # default_limits) ''203.0.113.7'' [0, 10, 20, 30, 40]
            (\<lambda>k. None) = Some c5
      \<and> Admit (per_minute ''process_url'' # default_limits) ''203.0.113.7'' 59 c5 = None
      \<and> route_process_url default_limits (fresh_state\<lparr>counters := c5\<rparr>)
           (post (Some 1) url_body 59) (world ''page'' uuid_a)
         = (fresh_state\<lparr>counters := c5\<rparr>, Inr TooManyRequests)
      \<and> Admit (per_minute ''process_url'' # default_limits) ''203.0.113.7'' 60 c5 \<noteq> None"
proof -
  let ?ls = "per_minute ''process_url'' # default_limits"
  let ?w = "per_minute ''process_url''"
  from five_admitted obtain c5 where
    a: "admit_all ?ls ''203.0.113.7'' [0, 10, 20, 30, 40] (\<lambda>k. None) = Some c5" by auto
  have h: "hit (\<lambda>k. None) ''203.0.113.7'' 0 ?w = (0, 1)"
    by (simp add: hit_def current_def)
  have d: "Admit ?ls ''203.0.113.7'' 59 c5 = None"
    using a h
      rate_limit_five_per_minute
        [where route = "''process_url''" and others = default_limits and ident = "''203.0.113.7''"
           and t_first = 0 and ts = "[10, 20, 30, 40]" and c = "\<lambda>k. None" and c' = c5
           and t_sixth = 59, THEN conjunct1]
    by simp
  let ?st = "fresh_state\<lparr>counters := c5\<rparr>"
  let ?rq = "post (Some 1) url_body 59"
  have "Admit ?ls (remote_addr ?rq) (now ?rq) (counters ?st) = None"
    using d by (simp add: post_def)
  then have r: "route_process_url default_limits ?st ?rq (world ''page'' uuid_a)
         = (?st, Inr TooManyRequests)"
    by (rule rate_limit_five_per_minute [THEN conjunct2, THEN conjunct1, rule_format])
  have c5: "c5 (''203.0.113.7'', ?w) = Some (0, 5)"
    using a by (auto simp: limiter_defs)
  have o: "list_all (\<lambda>l. used c5 ''203.0.113.7'' 60 l < amount l) default_limits"
    using a by (auto simp: limiter_defs)
  have "\<exists>c_next. Admit ?ls ''203.0.113.7'' 60 c5 = Some c_next
             \<and> c_next (''203.0.113.7'', ?w) = Some (60, 1)"
    using c5 o
      rate_limit_five_per_minute
        [where route = "''process_url''" and others = default_limits and ident = "''203.0.113.7''"
           and c = c5 and s = 0 and n = 5 and t = 60,
         THEN conjunct2, THEN conjunct2, THEN conjunct2, THEN conjunct2, THEN conjunct2,
         THEN conjunct1]
    by simp
  then have e: "Admit ?ls ''203.0.113.7'' 60 c5 \<noteq> None" by auto
  from a d r e show ?thesis by blast
qed

section \<open>Ingestion: error responses and the order of the two stores\<close>

lemma registry_append_fails:
  "(registry_append s uid key qf cf = Inl e) =
     (qf = Some e
      \<or> (qf = None \<and> users s uid = None
           \<and> e = Exn AttributeError (quoted ''NoneType'' @ '' object has no attribute '' @ quoted ''api_keys''))
      \<or> (qf = None \<and> users s uid \<noteq> None \<and> cf = Some e))"
  by (auto simp: registry_append_def split: option.splits)

lemma registry_append_ok:
  "registry_append s uid key qf cf = Inr s' \<Longrightarrow>
     \<exists>u. users s uid = Some u \<and> s' = s\<lparr>users := (users s)(uid \<mapsto> u\<lparr>api_keys := api_keys u @ [key]\<rparr>)\<rparr>"
  by (auto simp: registry_append_def split: option.splits)

text \<open>
  Claim C5, as the code has it. Without a session the answer is an error payload with
  status 401, whatever the body holds. With a session, a missing (or empty) URL gives an
  error payload with status 400; a fetch that raises gives an error payload with status
  500 and leaves the state as it was; a registry step that raises after the fetch gives
  an error payload with status 500, the text already stored.
\<close>

theorem process_url_error_statuses:
  "(session_user rq = None
      \<longrightarrow> process_url st rq ev = (st, Inr (Json (Error ''User not logged in'') 401)))
 \<and> (session_user rq = Some uid \<and> json_get (body rq) ''url'' = Inr url \<and> \<not> truthy url
      \<longrightarrow> process_url st rq ev = (st, Inr (Json (Error ''No URL provided'') 400)))
 \<and> (session_user rq = Some uid \<and> body rq = JObj kvs \<and> map_of kvs ''url'' = None
      \<longrightarrow> process_url st rq ev = (st, Inr (Json (Error ''No URL provided'') 400)))
 \<and> (session_user rq = Some uid \<and> json_get (body rq) ''url'' = Inr url \<and> truthy url
        \<and> extract_text_from_url ev url = Inl e
      \<longrightarrow> process_url st rq ev = (st, Inr (Json (Error (str e)) 500)))
 \<and> (session_user rq = Some uid \<and> json_get (body rq) ''url'' = Inr url \<and> truthy url
        \<and> extract_text_from_url ev url = Inr page
        \<and> registry_append (store_put st (new_api_key (uuid4 ev)) page) uid (new_api_key (uuid4 ev))
              (query_fault ev) (commit_fault ev) = Inl e
      \<longrightarrow> process_url st rq ev
            = (store_put st (new_api_key (uuid4 ev)) page, Inr (Json (Error (str e)) 500)))"
  by (auto simp: process_url_def Let_def json_get_def)

text \<open>A body without a URL, a fetch that fails and a commit that fails.\<close>

theorem process_url_error_witness:
  "process_url fresh_state (post (Some 1) (JObj []) 0) (world ''page'' uuid_a)
     = (fresh_state, Inr (Json (Error ''No URL provided'') 400))
 \<and> process_url fresh_state (post (Some 1) url_body 0)
       ((world ''page'' uuid_a)\<lparr>extract_text_from_url := (\<lambda>url. Inl (Exn OtherException ''Connection refused''))\<rparr>)
     = (fresh_state, Inr (Json (Error ''Connection refused'') 500))
 \<and> process_url fresh_state (post (Some 1) url_body 0)
       ((world ''page'' uuid_a)\<lparr>commit_fault := Some (Exn OtherException ''database is locked'')\<rparr>)
     = (store_put fresh_state key_a ''page'', Inr (Json (Error ''database is locked'') 500))"
proof (intro conjI)
  let ?ev = "world ''page'' uuid_a"
  have "session_user (post (Some 1) (JObj []) 0) = Some 1 \<and> body (post (Some 1) (JObj []) 0) = JObj []
      \<and> map_of [] ''url'' = (None :: json option)"
    by (simp add: post_def)
  then show "process_url fresh_state (post (Some 1) (JObj []) 0) ?ev
     = (fresh_state, Inr (Json (Error ''No URL provided'') 400))"
    by (rule process_url_error_statuses [THEN conjunct2, THEN conjunct2, THEN conjunct1, rule_format])
next
  let ?ev = "(world ''page'' uuid_a)\<lparr>extract_text_from_url := (\<lambda>url. Inl (Exn OtherException ''Connection refused''))\<rparr>"
  let ?rq = "post (Some 1) url_body 0"
  have "session_user ?rq = Some 1 \<and> json_get (body ?rq) ''url'' = Inr (JStr ''https://example.org/'')
        \<and> truthy (JStr ''https://example.org/'')
        \<and> extract_text_from_url ?ev (JStr ''https://example.org/'') = Inl (Exn OtherException ''Connection refused'')"
    by (simp add: post_def url_body_def json_get_def)
  then have "process_url fresh_state ?rq ?ev
     = (fresh_state, Inr (Json (Error (str (Exn OtherException ''Connection refused''))) 500))"
    by (rule process_url_error_statuses
              [THEN conjunct2, THEN conjunct2, THEN conjunct2, THEN conjunct1, rule_format])
  then show "process_url fresh_state ?rq ?ev
     = (fresh_state, Inr (Json (Error ''Connection refused'') 500))" by simp
next
  let ?ev = "(world ''page'' uuid_a)\<lparr>commit_fault := Some (Exn OtherException ''database is locked'')\<rparr>"
  let ?rq = "post (Some 1) url_body 0"
  have "session_user ?rq = Some 1 \<and> json_get (body ?rq) ''url'' = Inr (JStr ''https://example.org/'')
        \<and> truthy (JStr ''https://example.org/'')
        \<and> extract_text_from_url ?ev (JStr ''https://example.org/'') = Inr ''page''
        \<and> registry_append (store_put fresh_state (new_api_key (uuid4 ?ev)) ''page'') 1 (new_api_key (uuid4 ?ev))
              (query_fault ?ev) (commit_fault ?ev) = Inl (Exn OtherException ''database is locked'')"
    by (simp add: post_def url_body_def json_get_def world_def registry_append_def store_put_def
                  fresh_state_def)
  then have "process_url fresh_state ?rq ?ev
            = (store_put fresh_state (new_api_key (uuid4 ?ev)) ''page'',
               Inr (Json (Error (str (Exn OtherException ''database is locked''))) 500))"
    by (rule process_url_error_statuses
              [THEN conjunct2, THEN conjunct2, THEN conjunct2, THEN conjunct2, rule_format])
  then show "process_url fresh_state ?rq ?ev
     = (store_put fresh_state key_a ''page'', Inr (Json (Error ''database is locked'') 500))"
    by (simp add: world_def key_a_eq)
qed

text \<open>
  Claim C5 as the spec states it fails for a request without a session: line 149 answers
  with status 401, not 400.
\<close>

theorem process_url_unauthenticated_401:
  "process_url fresh_state (post None url_body 0) (world ''page'' uuid_a)
     = (fresh_state, Inr (Json (Error ''User not logged in'') 401))"
  by (simp add: process_url_def post_def)

lemma store_put_users: "users (store_put st k page) = users st"
  by (simp add: store_put_def)

lemma store_put_lookup: "extracted_texts (store_put st k page) k = Some page"
  by (simp add: store_put_def)

lemma process_url_registry_changed:
  assumes "process_url st rq ev = (st', r)" and "users st' \<noteq> users st"
  shows "\<exists>uid url page. session_user rq = Some uid \<and> json_get (body rq) ''url'' = Inr url
           \<and> extract_text_from_url ev url = Inr page
           \<and> registry_append (store_put st (new_api_key (uuid4 ev)) page) uid (new_api_key (uuid4 ev))
                (query_fault ev) (commit_fault ev) = Inr st'"
  using assms
  by (auto simp: process_url_def Let_def store_put_users split: option.splits sum.splits if_splits)

lemma process_url_succeeds:
  assumes "session_user rq = Some uid" and "json_get (body rq) ''url'' = Inr url" and "truthy url"
      and "extract_text_from_url ev url = Inr page"
      and "query_fault ev = None" and "commit_fault ev = None" and "users st uid = Some u"
  shows "process_url st rq ev
       = (st\<lparr>extracted_texts := (extracted_texts st)(new_api_key (uuid4 ev) \<mapsto> page),
             users := (users st)(uid \<mapsto> u\<lparr>api_keys := api_keys u @ [new_api_key (uuid4 ev)]\<rparr>)\<rparr>,
          Inr (Json (Processed ''Processing complete'' (new_api_key (uuid4 ev))
                       (generate_integration_code (new_api_key (uuid4 ev)))) 200))"
  using assms by (simp add: process_url_def Let_def store_put_def registry_append_def)

lemma processed_appended:
  assumes "process_url st rq ev = (st', Inr (Json (Processed m k c) code))"
  shows "\<exists>uid u page. session_user rq = Some uid \<and> users st uid = Some u
           \<and> users st' = (users st)(uid \<mapsto> u\<lparr>api_keys := api_keys u @ [k]\<rparr>)
           \<and> extracted_texts st' = (extracted_texts st)(k \<mapsto> page)
           \<and> registry_append (store_put st k page) uid k (query_fault ev) (commit_fault ev) = Inr st'"
  using assms
  by (auto simp: process_url_def Let_def store_put_def registry_append_def
           split: option.splits sum.splits if_splits)

text \<open>
  Claim C8. An ingestion that goes through (a session with an account, a URL, a fetch
  that returns a page, no fault of the database) puts the page into the store under the
  new key and appends that key to the end of the account's list; every ingestion
  answered with the success payload has done both, and the state it leaves is the
  registry step applied to the state in which the store already held the page. Whenever
  an ingestion changes the account table at all, it is by that step, after the store's
  insertion. When the registry step raises after the fetch (the query raises, the
  session's account has no row, or the commit raises), the answer is an error payload
  with status 500, the store keeps the entry and the account table is as it was.
\<close>

theorem registry_appended_after_store:
  "(session_user rq = Some uid \<and> json_get (body rq) ''url'' = Inr url \<and> truthy url
        \<and> extract_text_from_url ev url = Inr page
        \<and> query_fault ev = None \<and> commit_fault ev = None \<and> users st uid = Some u
      \<longrightarrow> process_url st rq ev
            = (st\<lparr>extracted_texts := (extracted_texts st)(new_api_key (uuid4 ev) \<mapsto> page),
                  users := (users st)(uid \<mapsto> u\<lparr>api_keys := api_keys u @ [new_api_key (uuid4 ev)]\<rparr>)\<rparr>,
               Inr (Json (Processed ''Processing complete'' (new_api_key (uuid4 ev))
                            (generate_integration_code (new_api_key (uuid4 ev)))) 200)))
 \<and> (process_url st rq ev = (st', Inr (Json (Processed m k c) code))
      \<longrightarrow> (\<exists>uid u page.
             session_user rq = Some uid \<and> users st uid = Some u
           \<and> users st' = (users st)(uid \<mapsto> u\<lparr>api_keys := api_keys u @ [k]\<rparr>)
           \<and> extracted_texts st' = (extracted_texts st)(k \<mapsto> page)
           \<and> registry_append (store_put st k page) uid k (query_fault ev) (commit_fault ev) = Inr st'))
 \<and> (process_url st rq ev = (st', r) \<and> users st' \<noteq> users st
      \<longrightarrow> (\<exists>uid u page.
             session_user rq = Some uid \<and> users st uid = Some u
           \<and> registry_append (store_put st (new_api_key (uuid4 ev)) page) uid (new_api_key (uuid4 ev))
                (query_fault ev) (commit_fault ev) = Inr st'
           \<and> users st' = (users st)(uid \<mapsto> u\<lparr>api_keys := api_keys u @ [new_api_key (uuid4 ev)]\<rparr>)
           \<and> extracted_texts st' (new_api_key (uuid4 ev)) = Some page))
 \<and> (session_user rq = Some uid \<and> json_get (body rq) ''url'' = Inr url \<and> truthy url
        \<and> extract_text_from_url ev url = Inr page
        \<and> registry_append (store_put st (new_api_key (uuid4 ev)) page) uid (new_api_key (uuid4 ev))
              (query_fault ev) (commit_fault ev) = Inl e
      \<longrightarrow> process_url st rq ev
            = (store_put st (new_api_key (uuid4 ev)) page, Inr (Json (Error (str e)) 500))
        \<and> extracted_texts (fst (process_url st rq ev)) (new_api_key (uuid4 ev)) = Some page
        \<and> users (fst (process_url st rq ev)) = users st)
 \<and> ((registry_append s uid key qf cf = Inl e) =
       (qf = Some e
        \<or> (qf = None \<and> users s uid = None
             \<and> e = Exn AttributeError (quoted ''NoneType'' @ '' object has no attribute '' @ quoted ''api_keys''))
        \<or> (qf = None \<and> users s uid \<noteq> None \<and> cf = Some e)))"
proof (intro conjI impI)
  assume "session_user rq = Some uid \<and> json_get (body rq) ''url'' = Inr url \<and> truthy url
        \<and> extract_text_from_url ev url = Inr page
        \<and> query_fault ev = None \<and> commit_fault ev = None \<and> users st uid = Some u"
  then show "process_url st rq ev
            = (st\<lparr>extracted_texts := (extracted_texts st)(new_api_key (uuid4 ev) \<mapsto> page),
                  users := (users st)(uid \<mapsto> u\<lparr>api_keys := api_keys u @ [new_api_key (uuid4 ev)]\<rparr>)\<rparr>,
               Inr (Json (Processed ''Processing complete'' (new_api_key (uuid4 ev))
                            (generate_integration_code (new_api_key (uuid4 ev)))) 200))"
    using process_url_succeeds by blast
next
  assume "process_url st rq ev = (st', Inr (Json (Processed m k c) code))"
  then show "\<exists>uid u page.
             session_user rq = Some uid \<and> users st uid = Some u
           \<and> users st' = (users st)(uid \<mapsto> u\<lparr>api_keys := api_keys u @ [k]\<rparr>)
           \<and> extracted_texts st' = (extracted_texts st)(k \<mapsto> page)
           \<and> registry_append (store_put st k page) uid k (query_fault ev) (commit_fault ev) = Inr st'"
    by (rule processed_appended)
next
  assume a: "process_url st rq ev = (st', r) \<and> users st' \<noteq> users st"
  let ?k = "new_api_key (uuid4 ev)"
  from a process_url_registry_changed [of st rq ev st' r] obtain uid page where
    s: "session_user rq = Some uid"
    and g: "registry_append (store_put st ?k page) uid ?k (query_fault ev) (commit_fault ev) = Inr st'"
    by blast
  from registry_append_ok [OF g] obtain u where
    u: "users (store_put st ?k page) uid = Some u"
    and e: "st' = (store_put st ?k page)\<lparr>users := (users (store_put st ?k page))(uid \<mapsto> u\<lparr>api_keys := api_keys u @ [?k]\<rparr>)\<rparr>"
    by blast
  from u have u': "users st uid = Some u" by (simp add: store_put_users)
  from e have m: "users st' = (users st)(uid \<mapsto> u\<lparr>api_keys := api_keys u @ [?k]\<rparr>)"
    by (simp add: store_put_users)
  from e have x: "extracted_texts st' ?k = Some page" by (simp add: store_put_def)
  from s u' g m x show "\<exists>uid u page.
             session_user rq = Some uid \<and> users st uid = Some u
           \<and> registry_append (store_put st ?k page) uid ?k (query_fault ev) (commit_fault ev) = Inr st'
           \<and> users st' = (users st)(uid \<mapsto> u\<lparr>api_keys := api_keys u @ [?k]\<rparr>)
           \<and> extracted_texts st' ?k = Some page"
    by blast
next
  assume a: "session_user rq = Some uid \<and> json_get (body rq) ''url'' = Inr url \<and> truthy url
        \<and> extract_text_from_url ev url = Inr page
        \<and> registry_append (store_put st (new_api_key (uuid4 ev)) page) uid (new_api_key (uuid4 ev))
              (query_fault ev) (commit_fault ev) = Inl e"
  then show p: "process_url st rq ev
            = (store_put st (new_api_key (uuid4 ev)) page, Inr (Json (Error (str e)) 500))"
    by (simp add: process_url_def Let_def)
  show "extracted_texts (fst (process_url st rq ev)) (new_api_key (uuid4 ev)) = Some page"
    by (simp add: p store_put_lookup)
  show "users (fst (process_url st rq ev)) = users st"
    by (simp add: p store_put_users)
next
  show "(registry_append s uid key qf cf = Inl e) =
       (qf = Some e
        \<or> (qf = None \<and> users s uid = None
             \<and> e = Exn AttributeError (quoted ''NoneType'' @ '' object has no attribute '' @ quoted ''api_keys''))
        \<or> (qf = None \<and> users s uid \<noteq> None \<and> cf = Some e))"
    by (rule registry_append_fails)
qed

text \<open>
  An ingestion that goes through: the page is in the store and the key is the one entry
  of the account's list. Then a commit that fails: the page is in the store and the key
  list is still empty.
\<close>

theorem registry_failure_witness:
  "extracted_texts (fst (process_url fresh_state (post (Some 1) url_body 0) (world ''page'' uuid_a)))
     key_a = Some ''page''
 \<and> users (fst (process_url fresh_state (post (Some 1) url_body 0) (world ''page'' uuid_a))) 1
     = Some (alice\<lparr>api_keys := [key_a]\<rparr>)
 \<and> snd (process_url fresh_state (post (Some 1) url_body 0) (world ''page'' uuid_a))
     = Inr (Json (Processed ''Processing complete'' key_a (generate_integration_code key_a)) 200)
 \<and> extracted_texts
     (fst (process_url fresh_state (post (Some 1) url_body 0)
             ((world ''page'' uuid_a)\<lparr>commit_fault := Some (Exn OtherException ''database is locked'')\<rparr>)))
     key_a = Some ''page''
 \<and> users
     (fst (process_url fresh_state (post (Some 1) url_body 0)
             ((world ''page'' uuid_a)\<lparr>commit_fault := Some (Exn OtherException ''database is locked'')\<rparr>)))
     1 = Some alice"
proof -
  let ?ok = "world ''page'' uuid_a"
  let ?ev = "(world ''page'' uuid_a)\<lparr>commit_fault := Some (Exn OtherException ''database is locked'')\<rparr>"
  let ?rq = "post (Some 1) url_body 0"
  have "session_user ?rq = Some 1 \<and> json_get (body ?rq) ''url'' = Inr (JStr ''https://example.org/'')
        \<and> truthy (JStr ''https://example.org/'')
        \<and> extract_text_from_url ?ok (JStr ''https://example.org/'') = Inr ''page''
        \<and> query_fault ?ok = None \<and> commit_fault ?ok = None \<and> users fresh_state 1 = Some alice"
    by (simp add: post_def url_body_def json_get_def world_def fresh_state_def)
  then have "process_url fresh_state ?rq ?ok
            = (fresh_state\<lparr>extracted_texts := (extracted_texts fresh_state)(new_api_key (uuid4 ?ok) \<mapsto> ''page''),
                  users := (users fresh_state)(1 \<mapsto> alice\<lparr>api_keys := api_keys alice @ [new_api_key (uuid4 ?ok)]\<rparr>)\<rparr>,
               Inr (Json (Processed ''Processing complete'' (new_api_key (uuid4 ?ok))
                            (generate_integration_code (new_api_key (uuid4 ?ok)))) 200))"
    by (rule registry_appended_after_store [THEN conjunct1, rule_format])
  then have ok: "extracted_texts (fst (process_url fresh_state ?rq ?ok)) key_a = Some ''page''
      \<and> users (fst (process_url fresh_state ?rq ?ok)) 1 = Some (alice\<lparr>api_keys := [key_a]\<rparr>)
      \<and> snd (process_url fresh_state ?rq ?ok)
         = Inr (Json (Processed ''Processing complete'' key_a (generate_integration_code key_a)) 200)"
    by (simp add: world_def key_a_eq alice_def)
  have "session_user ?rq = Some 1 \<and> json_get (body ?rq) ''url'' = Inr (JStr ''https://example.org/'')
        \<and> truthy (JStr ''https://example.org/'')
        \<and> extract_text_from_url ?ev (JStr ''https://example.org/'') = Inr ''page''
        \<and> registry_append (store_put fresh_state (new_api_key (uuid4 ?ev)) ''page'') 1 (new_api_key (uuid4 ?ev))
              (query_fault ?ev) (commit_fault ?ev) = Inl (Exn OtherException ''database is locked'')"
    by (simp add: post_def url_body_def json_get_def world_def registry_append_def store_put_def
                  fresh_state_def)
  then have "process_url fresh_state ?rq ?ev
            = (store_put fresh_state (new_api_key (uuid4 ?ev)) ''page'',
               Inr (Json (Error (str (Exn OtherException ''database is locked''))) 500))
        \<and> extracted_texts (fst (process_url fresh_state ?rq ?ev)) (new_api_key (uuid4 ?ev)) = Some ''page''
        \<and> users (fst (process_url fresh_state ?rq ?ev)) = users fresh_state"
    by (rule registry_appended_after_store
              [THEN conjunct2, THEN conjunct2, THEN conjunct2, THEN conjunct1, rule_format])
  then have "extracted_texts (fst (process_url fresh_state ?rq ?ev)) key_a = Some ''page''
      \<and> users (fst (process_url fresh_state ?rq ?ev)) 1 = Some alice"
    by (simp add: world_def key_a_eq store_put_def fresh_state_def)
  with ok show ?thesis by blast
qed

section \<open>Deletion\<close>

lemma remove1_single: "count_list xs k = Suc 0 \<Longrightarrow> k \<notin> set (remove1 k xs)"
proof (induction xs)
  case Nil
  then show ?case by simp
next
  case (Cons x xs)
  show ?case
  proof (cases "x = k")
    case True
    with Cons.prems have "count_list xs k = 0" by simp
    then have "k \<notin> set xs" by (simp add: count_list_0_iff)
    with True show ?thesis by simp
  next
    case False
    with Cons.prems have "count_list xs k = Suc 0" by simp
    then have "k \<notin> set (remove1 k xs)" by (rule Cons.IH)
    with False show ?thesis by simp
  qed
qed

lemma count_list_member: "count_list xs k = Suc 0 \<Longrightarrow> k \<in> set xs"
  using count_list_0_iff [of xs k] by auto

text \<open>
  Claim C4, as the code has it, for a session with an account and a non-empty string as
  the key, with no fault of the database. When the key stands exactly once in the
  account's list, the first call removes it from the list and from the store and answers
  with the message payload and status 200; the second call changes nothing and answers,
  without raising, with the error payload \<^verbatim>\<open>API key not found\<close> and status 404. When the
  key is not in the account's list, the first call already answers 404 and changes
  nothing.
\<close>

theorem delete_twice:
  assumes "session_user rq = Some uid" and "users st uid = Some u"
      and "json_get (body rq) ''api_key'' = Inr (JStr k)" and "k \<noteq> []"
  shows "(count_list (api_keys u) k = 1 \<longrightarrow>
           (\<exists>st1 u1. delete_api_key st rq None None
                      = (st1, Inr (Json (Message ''API key deleted successfully'') 200))
              \<and> delete_api_key st1 rq None None = (st1, Inr (Json (Error ''API key not found'') 404))
              \<and> extracted_texts st1 k = None
              \<and> users st1 uid = Some u1 \<and> api_keys u1 = remove1 k (api_keys u)
              \<and> k \<notin> set (api_keys u1)))
       \<and> (k \<notin> set (api_keys u) \<longrightarrow>
             delete_api_key st rq None None = (st, Inr (Json (Error ''API key not found'') 404)))"
proof (intro conjI impI)
  assume c: "count_list (api_keys u) k = 1"
  then have mem: "k \<in> set (api_keys u)" using count_list_member by simp
  from c have gone: "k \<notin> set (remove1 k (api_keys u))" using remove1_single by simp
  let ?u1 = "u\<lparr>api_keys := remove1 k (api_keys u)\<rparr>"
  let ?st1 = "st\<lparr>users := (users st)(uid \<mapsto> ?u1), extracted_texts := (extracted_texts st)(k := None)\<rparr>"
  have a: "delete_api_key st rq None None
             = (?st1, Inr (Json (Message ''API key deleted successfully'') 200))"
    using assms mem by (simp add: delete_api_key_def key_in_def)
  have b: "delete_api_key ?st1 rq None None = (?st1, Inr (Json (Error ''API key not found'') 404))"
    using assms gone by (simp add: delete_api_key_def key_in_def)
  have "extracted_texts ?st1 k = None \<and> users ?st1 uid = Some ?u1
        \<and> api_keys ?u1 = remove1 k (api_keys u) \<and> k \<notin> set (api_keys ?u1)"
    using gone by simp
  with a b show "\<exists>st1 u1. delete_api_key st rq None None
                      = (st1, Inr (Json (Message ''API key deleted successfully'') 200))
              \<and> delete_api_key st1 rq None None = (st1, Inr (Json (Error ''API key not found'') 404))
              \<and> extracted_texts st1 k = None
              \<and> users st1 uid = Some u1 \<and> api_keys u1 = remove1 k (api_keys u)
              \<and> k \<notin> set (api_keys u1)"
    by blast
next
  assume "k \<notin> set (api_keys u)"
  then show "delete_api_key st rq None None = (st, Inr (Json (Error ''API key not found'') 404))"
    using assms by (simp add: delete_api_key_def key_in_def)
qed

text \<open>An account that owns one key deletes it twice.\<close>

theorem delete_twice_witness:
  "\<exists>st1. delete_api_key
            \<lparr>extracted_texts = [key_a \<mapsto> ''page''], users = [1 \<mapsto> alice\<lparr>api_keys := [key_a]\<rparr>],
             counters = (\<lambda>k. None)\<rparr>
            (post (Some 1) (key_body key_a) 5) None None
          = (st1, Inr (Json (Message ''API key deleted successfully'') 200))
      \<and> delete_api_key st1 (post (Some 1) (key_body key_a) 5) None None
          = (st1, Inr (Json (Error ''API key not found'') 404))
      \<and> extracted_texts st1 key_a = None"
proof -
  let ?st = "\<lparr>extracted_texts = [key_a \<mapsto> ''page''], users = [1 \<mapsto> alice\<lparr>api_keys := [key_a]\<rparr>],
             counters = (\<lambda>k. None)\<rparr>"
  let ?rq = "post (Some 1) (key_body key_a) 5"
  have a: "session_user ?rq = Some 1" by (simp add: post_def)
  have b: "users ?st 1 = Some (alice\<lparr>api_keys := [key_a]\<rparr>)" by simp
  have c: "json_get (body ?rq) ''api_key'' = Inr (JStr key_a)"
    by (simp add: post_def key_body_def json_get_def)
  have d: "key_a \<noteq> []" by (simp add: key_a_def)
  have e: "count_list (api_keys (alice\<lparr>api_keys := [key_a]\<rparr>)) key_a = 1" by simp
  from delete_twice [OF a b c d, THEN conjunct1, rule_format, OF e] show ?thesis by blast
qed

text \<open>
  Claim C4 as the spec states it fails in two places: for a key the account does not
  own, the first call reports no removal; and the second call on an owned key is
  answered with an error payload and status 404.
\<close>

theorem delete_unknown_key_not_reported:
  "delete_api_key fresh_state (post (Some 1) (key_body ''user_bogus'') 0) None None
     = (fresh_state, Inr (Json (Error ''API key not found'') 404))
 \<and> snd (delete_api_key
          (fst (delete_api_key
                  \<lparr>extracted_texts = [key_a \<mapsto> ''page''], users = [1 \<mapsto> alice\<lparr>api_keys := [key_a]\<rparr>],
                   counters = (\<lambda>k. None)\<rparr>
                  (post (Some 1) (key_body key_a) 5) None None))
          (post (Some 1) (key_body key_a) 6) None None)
     = Inr (Json (Error ''API key not found'') 404)"
  by (simp add: delete_api_key_def key_in_def json_get_def key_body_def post_def fresh_state_def
                alice_def key_a_def)

end
